theory Spec2Isabelle
  imports Main "HOL-Library.Monad_Syntax"
begin

section \<open>Data model\<close>

text \<open>
  The program is a Bubble Tea application: a \<open>model\<close> value, an \<open>Update\<close> function from
  a model and a message to a new model and an optional command, and a \<open>View\<close> function.
  A command is a closure that the runtime executes asynchronously; its result is the next
  message. Closures are represented by a datatype of commands, and the body of each
  closure by a function of its own that takes what the outside world answers.

  The definitions follow the revision of \<^verbatim>\<open>main.go\<close> that watches a list of websites
  (\<^verbatim>\<open>src/unnamed/part_000\<close>); \<open>Update\<close> of the revision for one website
  (\<^verbatim>\<open>src/main.go\<close>) is modelled beside it and shown to agree with it.
\<close>

type_synonym duration = int  \<comment> \<open>\<open>time.Duration\<close>: nanoseconds\<close>

datatype location = Location string  \<comment> \<open>\<open>*time.Location\<close>, by name\<close>

datatype gotime = Time int location  \<comment> \<open>an instant (Unix nanoseconds) and its location\<close>

datatype any =
    AnyString string
  | AnyFloat64 int int  \<comment> \<open>mantissa and exponent\<close>
  | AnyBool bool
  | AnyNil
  | AnySlice "any list"
  | AnyMap "(string \<times> any) list"

type_synonym gomap = "(string \<rightharpoonup> any) option"  \<comment> \<open>\<open>map[string]any\<close>; \<open>None\<close> is the nil map\<close>

type_synonym goerror = "string option"  \<comment> \<open>\<open>error\<close> by its \<open>Error()\<close> text; \<open>None\<close> is nil\<close>

datatype gocontext = Ctx nat

datatype msg =
    tickMsgWithIndex gotime int
  | pingResultWithIndex string goerror int
  | healthResultGenericWithIndex gomap goerror int
  | KeyMsg string
  | OtherMsg

datatype cmd =
    PingCmd gocontext string int
  | HealthCmd gocontext string string int
  | SleepCmd duration int
  | Quit
  | Batch "cmd list"

text \<open>
  The struct \<open>model\<close> and \<open>initialModel\<close> are declared in a file that is not among the
  sources; the fields and their types are those that \<open>Update\<close>, \<open>View\<close> and \<open>main\<close> use.
  \<open>cancel\<close> tells whether the cancel function is non-nil.
\<close>

record model =
  websites :: "string list"
  schedule :: string
  healthEndpoint :: "string list"
  lastPing :: "string list"
  lastError :: "string list"
  lastHealthGeneric :: "gomap list"
  timezone :: "location option"
  quit :: bool
  ctx :: gocontext
  cancel :: bool

datatype style =
    headerStyle | sectionTitle | infoStyle | sectionBox | errorStyle
  | healthKeyStyle | healthValueStyle | footerStyle

text \<open>
  What the program takes from the Go standard library and from lipgloss: each function
  is a parameter. A sum \<open>string + 'a\<close> is a result with an error (\<open>Inl\<close>, the
  error's text).
\<close>

record golib =
  time_ParseDuration :: "string \<Rightarrow> string + duration"
  time_LoadLocation :: "string \<Rightarrow> string + location"
  net_ParseIP :: "string \<Rightarrow> bool"  \<comment> \<open>whether the result is non-nil\<close>
  net_JoinHostPort :: "string \<Rightarrow> string \<Rightarrow> string"
  json_Unmarshal_strings :: "string \<Rightarrow> string + string list"
  json_Unmarshal_map :: "string \<Rightarrow> string + gomap"
  http_NewRequest :: "string \<Rightarrow> string + string"  \<comment> \<open>a request, by its URL\<close>
  strconv_Quote :: "string \<Rightarrow> string"  \<comment> \<open>the verb \<open>%q\<close>\<close>
  fmt_Sprint_v :: "any \<Rightarrow> string"  \<comment> \<open>the verb \<open>%v\<close>\<close>
  time_Parse_RFC3339 :: "string \<Rightarrow> string + gotime"
  time_Format :: "gotime \<Rightarrow> string \<Rightarrow> string"
  Render :: "style \<Rightarrow> string \<Rightarrow> string"

section \<open>Constants\<close>

definition DefaultSchedule :: string where
  "DefaultSchedule = ''10s''"

definition Second :: duration where
  "Second = 1000000000"

definition DefaultTCPTimeout :: duration where
  "DefaultTCPTimeout = 5 * Second"

definition DefaultSleepBackoff :: duration where
  "DefaultSleepBackoff = 10 * Second"

definition DefaultTCPPort :: string where
  "DefaultTCPPort = ''80''"

definition HTTPSScheme :: string where
  "HTTPSScheme = ''https://''"

definition DisplayTimeFormat :: string where
  "DisplayTimeFormat = ''2006-01-02 15:04:05 MST''"

definition TimestampField1 :: string where
  "TimestampField1 = ''timestamp''"

definition TimestampField2 :: string where
  "TimestampField2 = ''time''"

definition TimestampField3 :: string where
  "TimestampField3 = ''date''"

definition newline :: char where
  "newline = CHR 0x0A"

definition Local :: location where
  "Local = Location ''Local''"

section \<open>Formatting an integer (the verbs \<open>%d\<close> and \<open>%v\<close>)\<close>

fun decimal :: "nat \<Rightarrow> string" where
  "decimal n = (if n < 10 then [''0123456789'' ! n]
                else decimal (n div 10) @ [''0123456789'' ! (n mod 10)])"

definition itoa :: "int \<Rightarrow> string" where
  "itoa i = (if i < 0 then CHR ''-'' # decimal (nat (- i)) else decimal (nat i))"

section \<open>Slices\<close>

text \<open>Reading and writing a slice at an \<open>int\<close> index; \<open>None\<close> is the runtime panic
  (index out of range).\<close>

definition in_range :: "int \<Rightarrow> 'a list \<Rightarrow> bool" where
  "in_range i xs \<longleftrightarrow> 0 \<le> i \<and> i < int (length xs)"

definition at :: "'a list \<Rightarrow> int \<Rightarrow> 'a option" where
  "at xs i = (if in_range i xs then Some (xs ! nat i) else None)"

definition assign :: "'a list \<Rightarrow> int \<Rightarrow> 'a \<Rightarrow> 'a list option" where
  "assign xs i v = (if in_range i xs then Some (xs[nat i := v]) else None)"

section \<open>Commands\<close>

definition pingWebsiteCmdWithContext :: "gocontext \<Rightarrow> string \<Rightarrow> int \<Rightarrow> cmd" where
  "pingWebsiteCmdWithContext c website idx = PingCmd c website idx"

definition fetchHealthCmdWithContext :: "gocontext \<Rightarrow> string \<Rightarrow> string \<Rightarrow> int \<Rightarrow> cmd" where
  "fetchHealthCmdWithContext c website endpoint idx = HealthCmd c website endpoint idx"

definition schedulePing :: "golib \<Rightarrow> string \<Rightarrow> int \<Rightarrow> cmd" where
  "schedulePing lib sched idx =
     (let dur = (case time_ParseDuration lib sched of
                   Inl err \<Rightarrow> DefaultSleepBackoff
                 | Inr d \<Rightarrow> d)
      in SleepCmd dur idx)"

definition isValidSchedule :: "golib \<Rightarrow> string \<Rightarrow> bool" where
  "isValidSchedule lib s = (case time_ParseDuration lib s of Inl err \<Rightarrow> False | Inr d \<Rightarrow> True)"

section \<open>What a command does when the runtime runs it\<close>

text \<open>
  The outside world, as far as the closures read it: the outcome of a TCP dial with a
  timeout to an address (an error, or the elapsed milliseconds), the outcome of sending
  an HTTP request (an error, or a status code and the outcome of reading the body), and
  the clock.
\<close>

record http_Response =
  StatusCode :: int
  Body :: "string + string"

record world =
  dial :: "duration \<Rightarrow> string \<Rightarrow> string + int"
  http_Do :: "string \<Rightarrow> string + http_Response"
  time_Now :: gotime

datatype io = Dial string | NewRequest string | Do string

text \<open>
  The closures of \<open>schedulePing\<close> (lines 171-174), \<open>pingWebsiteCmdWithContext\<close> (lines
  183-198) and \<open>fetchHealthCmdWithContext\<close> (lines 202-228). Each body returns its
  message and the calls it made on the way.
\<close>

definition schedulePing_run :: "world \<Rightarrow> duration \<Rightarrow> int \<Rightarrow> msg \<times> io list" where
  "schedulePing_run w dur idx = (tickMsgWithIndex (time_Now w) idx, [])"

definition pingWebsiteCmdWithContext_run ::
  "golib \<Rightarrow> world \<Rightarrow> string \<Rightarrow> int \<Rightarrow> msg \<times> io list" where
  "pingWebsiteCmdWithContext_run lib w website idx =
     (let address = net_JoinHostPort lib website DefaultTCPPort in
      case dial w DefaultTCPTimeout address of
        Inl err \<Rightarrow> (pingResultWithIndex [] (Some err) idx, [Dial address])
      | Inr elapsed \<Rightarrow>
          (let result = ''Ping to '' @ website @ '':'' @ [newline] @
                        ''  TCP connect successful'' @ [newline] @
                        ''  Time: '' @ itoa elapsed @ '' ms''
           in (pingResultWithIndex result None idx, [Dial address])))"

definition fetchHealthCmdWithContext_run ::
  "golib \<Rightarrow> world \<Rightarrow> string \<Rightarrow> string \<Rightarrow> int \<Rightarrow> msg \<times> io list" where
  "fetchHealthCmdWithContext_run lib w website endpoint idx =
     (if endpoint = [] then
        (healthResultGenericWithIndex None (Some ''health endpoint not configured'') idx, [])
      else
        (let url = HTTPSScheme @ website @ endpoint in
         case http_NewRequest lib url of
           Inl err \<Rightarrow> (healthResultGenericWithIndex None (Some err) idx, [NewRequest url])
         | Inr req \<Rightarrow>
             (case http_Do w req of
                Inl err \<Rightarrow>
                  (healthResultGenericWithIndex None (Some err) idx, [NewRequest url, Do req])
              | Inr resp \<Rightarrow>
                  (case Body resp of
                     Inl err \<Rightarrow>
                       (healthResultGenericWithIndex None (Some err) idx,
                        [NewRequest url, Do req])
                   | Inr body \<Rightarrow>
                       if StatusCode resp < 200 \<or> StatusCode resp \<ge> 300 then
                         (healthResultGenericWithIndex None
                            (Some (''health endpoint HTTP '' @ itoa (StatusCode resp) @
                                   '': '' @ body))
                            idx,
                          [NewRequest url, Do req])
                       else
                         (case json_Unmarshal_map lib body of
                            Inl err \<Rightarrow>
                              (healthResultGenericWithIndex None
                                 (Some (''invalid JSON from health endpoint: '' @ err @
                                        [newline] @ ''Body: '' @ body))
                                 idx,
                               [NewRequest url, Do req])
                          | Inr data \<Rightarrow>
                              (healthResultGenericWithIndex data None idx,
                               [NewRequest url, Do req]))))))"

fun run :: "golib \<Rightarrow> world \<Rightarrow> cmd \<Rightarrow> (msg \<times> io list) option" where
  "run lib w (PingCmd c website idx) = Some (pingWebsiteCmdWithContext_run lib w website idx)"
| "run lib w (HealthCmd c website endpoint idx) =
     Some (fetchHealthCmdWithContext_run lib w website endpoint idx)"
| "run lib w (SleepCmd dur idx) = Some (schedulePing_run w dur idx)"
| "run lib w Quit = None"
| "run lib w (Batch cs) = None"

section \<open>Init\<close>

definition Init :: "model \<Rightarrow> cmd" where
  "Init m = Batch (map (\<lambda>(i, website). pingWebsiteCmdWithContext (ctx m) website (int i))
                     (enumerate 0 (websites m)))"

section \<open>Update\<close>

text \<open>
  \<open>model.Update\<close> (lines 243-279). The result is \<open>None\<close> when the code panics (an index
  out of range), and else the new model, the command (\<open>None\<close> is the nil command) and
  whether \<open>m.cancel()\<close> was called.
\<close>

fun Update :: "golib \<Rightarrow> model \<Rightarrow> msg \<Rightarrow> (model \<times> cmd option \<times> bool) option" where
  "Update lib m (tickMsgWithIndex t i) =
     do {
       w \<leftarrow> at (websites m) i;
       Some (m, Some (pingWebsiteCmdWithContext (ctx m) w i), False)
     }"
| "Update lib m (pingResultWithIndex res err i) =
     (case err of
        Some e \<Rightarrow>
          do {
            le \<leftarrow> assign (lastError m) i e;
            lp \<leftarrow> assign (lastPing m) i [];
            lh \<leftarrow> assign (lastHealthGeneric m) i None;
            Some (m\<lparr>lastError := le, lastPing := lp, lastHealthGeneric := lh\<rparr>,
                  Some (schedulePing lib (schedule m) i), False)
          }
      | None \<Rightarrow>
          do {
            lp \<leftarrow> assign (lastPing m) i res;
            le \<leftarrow> assign (lastError m) i [];
            let m' = m\<lparr>lastPing := lp, lastError := le\<rparr>;
            if int (length (healthEndpoint m')) > i \<and> healthEndpoint m' ! nat i \<noteq> [] then
              do {
                w \<leftarrow> at (websites m') i;
                Some (m', Some (fetchHealthCmdWithContext (ctx m') w (healthEndpoint m' ! nat i) i),
                      False)
              }
            else Some (m', Some (schedulePing lib (schedule m') i), False)
          })"
| "Update lib m (healthResultGenericWithIndex data err i) =
     (case err of
        None \<Rightarrow>
          do {
            lh \<leftarrow> assign (lastHealthGeneric m) i data;
            Some (m\<lparr>lastHealthGeneric := lh\<rparr>, Some (schedulePing lib (schedule m) i), False)
          }
      | Some e \<Rightarrow>
          do {
            lh \<leftarrow> assign (lastHealthGeneric m) i None;
            le \<leftarrow> assign (lastError m) i e;
            Some (m\<lparr>lastHealthGeneric := lh, lastError := le\<rparr>,
                  Some (schedulePing lib (schedule m) i), False)
          })"
| "Update lib m (KeyMsg k) =
     (if k = ''ctrl+c'' \<or> k = ''q'' then Some (m\<lparr>quit := True\<rparr>, Some Quit, cancel m)
      else Some (m, None, False))"
| "Update lib m OtherMsg = Some (m, None, False)"

section \<open>Update in the revision for one website\<close>

text \<open>
  \<^verbatim>\<open>src/main.go\<close> is the revision of the program that watches one website: its model
  has one value where the other has a slice, and its messages and commands carry no
  index. \<open>schedulePing\<close> is at its lines 89-98 and \<open>model.Update\<close> at its lines 149-184;
  no line of this \<open>Update\<close> can panic.
\<close>

record model_single =
  s_website :: string
  s_schedule :: string
  s_healthEndpoint :: string
  s_lastPing :: string
  s_lastError :: string
  s_lastHealthGeneric :: gomap
  s_timezone :: "location option"
  s_quit :: bool
  s_ctx :: gocontext
  s_cancel :: bool

datatype msg_single =
    tickMsg gotime
  | pingResult string goerror
  | healthResultGeneric gomap goerror
  | KeyMsg_single string
  | OtherMsg_single

datatype cmd_single =
    PingCmd_single gocontext string
  | HealthCmd_single gocontext string string
  | SleepCmd_single duration
  | Quit_single

definition schedulePing_single :: "golib \<Rightarrow> string \<Rightarrow> cmd_single" where
  "schedulePing_single lib sched =
     (let dur = (case time_ParseDuration lib sched of
                   Inl err \<Rightarrow> 10 * Second
                 | Inr d \<Rightarrow> d)
      in SleepCmd_single dur)"

fun Update_single ::
  "golib \<Rightarrow> model_single \<Rightarrow> msg_single \<Rightarrow> model_single \<times> cmd_single option \<times> bool" where
  "Update_single lib m (tickMsg t) = (m, Some (PingCmd_single (s_ctx m) (s_website m)), False)"
| "Update_single lib m (pingResult res err) =
     (case err of
        Some e \<Rightarrow>
          (m\<lparr>s_lastError := e, s_lastPing := [], s_lastHealthGeneric := None\<rparr>,
           Some (schedulePing_single lib (s_schedule m)), False)
      | None \<Rightarrow>
          (let m' = m\<lparr>s_lastPing := res, s_lastError := []\<rparr> in
           if s_healthEndpoint m' \<noteq> [] then
             (m', Some (HealthCmd_single (s_ctx m') (s_website m') (s_healthEndpoint m')), False)
           else (m', Some (schedulePing_single lib (s_schedule m')), False)))"
| "Update_single lib m (healthResultGeneric data err) =
     (case err of
        None \<Rightarrow>
          (m\<lparr>s_lastHealthGeneric := data\<rparr>, Some (schedulePing_single lib (s_schedule m)), False)
      | Some e \<Rightarrow>
          (m\<lparr>s_lastHealthGeneric := None, s_lastError := e\<rparr>,
           Some (schedulePing_single lib (s_schedule m)), False))"
| "Update_single lib m (KeyMsg_single k) =
     (if k = ''ctrl+c'' \<or> k = ''q'' then (m\<lparr>s_quit := True\<rparr>, Some Quit_single, s_cancel m)
      else (m, None, False))"
| "Update_single lib m OtherMsg_single = (m, None, False)"

section \<open>View\<close>

text \<open>\<open>renderSection\<close>, \<open>renderHealthSection\<close> (lines 135-155) and \<open>model.View\<close> (lines
  281-337). \<open>join\<close> is \<open>strings.Join\<close> and \<open>split\<close> is \<open>strings.Split\<close> on one
  character.\<close>

definition renderSection :: "golib \<Rightarrow> string \<Rightarrow> string \<Rightarrow> string" where
  "renderSection lib title v = Render lib sectionTitle title @ '' '' @ Render lib infoStyle v"

definition In :: "gotime \<Rightarrow> location \<Rightarrow> gotime" where
  "In t loc = (case t of Time n l \<Rightarrow> Time n loc)"

fun join :: "string \<Rightarrow> string list \<Rightarrow> string" where
  "join sep [] = []"
| "join sep [l] = l"
| "join sep (l # ls) = l @ sep @ join sep ls"

fun split :: "char \<Rightarrow> string \<Rightarrow> string list" where
  "split sep [] = [[]]"
| "split sep (c # cs) =
     (if c = sep then [] # split sep cs
      else (case split sep cs of [] \<Rightarrow> [[c]] | l # ls \<Rightarrow> (c # l) # ls))"

text \<open>The line that one round of the loop over the health map appends.\<close>

definition healthLine :: "golib \<Rightarrow> location option \<Rightarrow> string \<Rightarrow> any \<Rightarrow> string" where
  "healthLine lib tz k v =
     (let other = ''  '' @ Render lib healthKeyStyle (k @ '':'') @ '' '' @
                  Render lib healthValueStyle (fmt_Sprint_v lib v)
      in case v of
           AnyString s \<Rightarrow>
             if k = TimestampField1 \<or> k = TimestampField2 \<or> k = TimestampField3 then
               (let s' = (case tz of
                            None \<Rightarrow> s
                          | Some z \<Rightarrow>
                              (case time_Parse_RFC3339 lib s of
                                 Inl err \<Rightarrow> s
                               | Inr t \<Rightarrow> time_Format lib (In t z) DisplayTimeFormat))
                in ''  '' @ Render lib healthKeyStyle (k @ '':'') @ '' '' @
                   Render lib healthValueStyle s')
             else other
         | _ \<Rightarrow> other)"

text \<open>
  Go visits the keys of a map in an order that the runtime chooses at each loop:
  \<open>order\<close> is that order, a parameter.
\<close>

definition renderHealthSection ::
  "golib \<Rightarrow> (string \<rightharpoonup> any) \<Rightarrow> string list \<Rightarrow> location option \<Rightarrow> string" where
  "renderHealthSection lib data order tz =
     join [newline]
       (Render lib sectionTitle ''Health Endpoint:'' #
        List.map_filter (\<lambda>k. map_option (healthLine lib tz k) (data k)) order)"

fun renderPingLines :: "golib \<Rightarrow> string list \<Rightarrow> string" where
  "renderPingLines lib [] = []"
| "renderPingLines lib (l # ls) =
     Render lib infoStyle l @ concat (map (\<lambda>line. [newline] @ Render lib infoStyle line) ls)"

text \<open>
  One round of the loop over the websites: \<open>now\<close> is what \<open>time.Now()\<close> returns in
  this round, \<open>order\<close> the order in which this round's loop visits the health map.
\<close>

definition View_website ::
  "golib \<Rightarrow> gotime \<Rightarrow> string list \<Rightarrow> model \<Rightarrow> nat \<Rightarrow> string \<Rightarrow> string option" where
  "View_website lib now order m i website =
     do {
       lp \<leftarrow> at (lastPing m) (int i);
       let ping =
         (if lp \<noteq> [] then
            (let now' = (case timezone m of None \<Rightarrow> now | Some tz \<Rightarrow> In now tz)
             in [newline] @
                renderSection lib ''Last checked:'' (time_Format lib now' DisplayTimeFormat) @
                [newline] @ renderPingLines lib (split newline lp) @ [newline])
          else []);
       health \<leftarrow>
         (if length (healthEndpoint m) > i \<and> healthEndpoint m ! i \<noteq> [] then
            do {
              h \<leftarrow> at (lastHealthGeneric m) (int i);
              Some (case h of
                      None \<Rightarrow> []
                    | Some data \<Rightarrow>
                        [newline] @ renderHealthSection lib data order (timezone m) @ [newline])
            }
          else Some []);
       le \<leftarrow> at (lastError m) (int i);
       let err = (if le \<noteq> [] then
                    [newline] @ Render lib errorStyle (''FAILED: '' @ le) @ [newline]
                  else []);
       let sep = (if length (websites m) > 1 \<and> int i < int (length (websites m)) - 1 then
                    [newline] @ replicate 40 (CHR ''-'') @ [newline, newline]
                  else []);
       Some (renderSection lib ''Website:'' website @ [newline] @
             renderSection lib ''Schedule:'' (schedule m) @ [newline] @
             ping @ health @ err @ sep)
     }"

fun View_loop ::
  "golib \<Rightarrow> (nat \<Rightarrow> gotime) \<Rightarrow> (nat \<Rightarrow> string list) \<Rightarrow> model \<Rightarrow> (nat \<times> string) list \<Rightarrow>
   string option" where
  "View_loop lib clock orders m [] = Some []"
| "View_loop lib clock orders m ((i, website) # rest) =
     do {
       s \<leftarrow> View_website lib (clock i) (orders i) m i website;
       t \<leftarrow> View_loop lib clock orders m rest;
       Some (s @ t)
     }"

text \<open>\<open>None\<close> is a panic (a slice of the model shorter than \<open>websites\<close>).\<close>

definition View :: "golib \<Rightarrow> (nat \<Rightarrow> gotime) \<Rightarrow> (nat \<Rightarrow> string list) \<Rightarrow> model \<Rightarrow> string option" where
  "View lib clock orders m =
     do {
       body \<leftarrow> View_loop lib clock orders m (enumerate 0 (websites m));
       Some (Render lib headerStyle '' Vivteno - Website Health Monitor '' @
             [newline, newline] @ body @
             Render lib footerStyle ''Press q or Ctrl+C to quit.'')
     }"

section \<open>Validation helpers\<close>

definition label_char :: "char \<Rightarrow> bool" where
  "label_char c \<longleftrightarrow>
     c \<in> set ''abcdefghijklmnopqrstuvwxyzABCDEFGHIJKLMNOPQRSTUVWXYZ0123456789-''"

text \<open>The strings that the regular expression \<^verbatim>\<open>^([a-zA-Z0-9-]+\.)*[a-zA-Z0-9-]+$\<close>
  matches: non-empty labels of letters, digits and hyphens, with dots between them.\<close>

definition hostname_re :: "string \<Rightarrow> bool" where
  "hostname_re host = list_all (\<lambda>l. l \<noteq> [] \<and> list_all label_char l) (split (CHR ''.'') host)"

definition isValidHostname :: "golib \<Rightarrow> string \<Rightarrow> bool" where
  "isValidHostname lib host = (if net_ParseIP lib host then True else hostname_re host)"

section \<open>main, up to the start of the program\<close>

text \<open>\<open>main\<close> (lines 354-413), with the environment as it is after \<open>godotenv.Load()\<close>.\<close>

record environ =
  PING_WEBSITE :: string
  PING_SCHEDULE :: string
  TIMEZONE :: string
  HEALTH_ENDPOINT :: string

text \<open>
  \<open>Exit text code\<close>: the process printed \<open>text\<close> and called \<open>os.Exit(code)\<close>.
  \<open>Run websites schedule healthEndpoints loc\<close>: the configuration was accepted,
  \<open>initialModel\<close> gets these arguments, the model's timezone is \<open>loc\<close> and the program
  runs.
\<close>

datatype startup =
    Exit string int
  | Run "string list" string "string list" location

definition main :: "golib \<Rightarrow> environ \<Rightarrow> startup" where
  "main lib env =
     (let websiteEnv = PING_WEBSITE env;
          schedule0 = PING_SCHEDULE env;
          timezone1 = TIMEZONE env;
          healthEndpointEnv = HEALTH_ENDPOINT env;
          usage = ''PING_WEBSITE must be a JSON array of at least one website, e.g. ['' @
                  [CHR 0x22] @ ''example.com'' @ [CHR 0x22] @ '']'' @ [newline]
      in case json_Unmarshal_strings lib websiteEnv of
           Inl err \<Rightarrow> Exit usage 1
         | Inr websites1 \<Rightarrow>
             if length websites1 = 0 then Exit usage 1
             else
               (case find (\<lambda>w. \<not> isValidHostname lib w) websites1 of
                  Some w \<Rightarrow>
                    Exit (''Invalid website in PING_WEBSITE: '' @ strconv_Quote lib w @ [newline]) 1
                | None \<Rightarrow>
                    (let schedule1 = (if schedule0 = [] then DefaultSchedule else schedule0) in
                     if \<not> isValidSchedule lib schedule1 then
                       Exit (''Invalid PING_SCHEDULE: '' @ strconv_Quote lib schedule1 @ [newline]) 1
                     else
                       (case (if timezone1 \<noteq> [] then time_LoadLocation lib timezone1
                              else Inr Local) of
                          Inl err \<Rightarrow>
                            Exit (''Invalid TIMEZONE: '' @ strconv_Quote lib timezone1 @ [newline]) 1
                        | Inr loc \<Rightarrow>
                            if healthEndpointEnv \<noteq> [] then
                              (case json_Unmarshal_strings lib healthEndpointEnv of
                                 Inl err \<Rightarrow>
                                   Run websites1 schedule1
                                     (replicate (length websites1) healthEndpointEnv) loc
                               | Inr healthEndpoints1 \<Rightarrow>
                                   if length healthEndpoints1 \<noteq> length websites1 then
                                     Exit (''HEALTH_ENDPOINT must be a JSON array with the same '' @
                                           ''length as PING_WEBSITE, or a single string.'' @
                                           [newline]) 1
                                   else Run websites1 schedule1 healthEndpoints1 loc)
                            else Run websites1 schedule1 (replicate (length websites1) []) loc))))"

section \<open>Notions used by the properties\<close>

text \<open>
  \<open>initialModel\<close> is not among the sources. A model is well formed when it has one
  entry of \<open>lastPing\<close>, \<open>lastError\<close> and \<open>lastHealthGeneric\<close> for each website, which is
  what \<open>Update\<close> and \<open>View\<close> take for granted when they index these slices.
\<close>

definition wf_model :: "model \<Rightarrow> bool" where
  "wf_model m \<longleftrightarrow>
     length (lastPing m) = length (websites m) \<and>
     length (lastError m) = length (websites m) \<and>
     length (lastHealthGeneric m) = length (websites m)"

text \<open>The test of \<open>Update\<close> for a target with a health path.\<close>

definition health_configured :: "model \<Rightarrow> int \<Rightarrow> bool" where
  "health_configured m i \<longleftrightarrow>
     int (length (healthEndpoint m)) > i \<and> healthEndpoint m ! nat i \<noteq> []"

text \<open>The target of a per-target message, and of a single probe or timer command.\<close>

fun msg_index :: "msg \<Rightarrow> int option" where
  "msg_index (tickMsgWithIndex t i) = Some i"
| "msg_index (pingResultWithIndex res err i) = Some i"
| "msg_index (healthResultGenericWithIndex data err i) = Some i"
| "msg_index (KeyMsg k) = None"
| "msg_index OtherMsg = None"

fun cmd_index :: "cmd \<Rightarrow> int option" where
  "cmd_index (PingCmd c website i) = Some i"
| "cmd_index (HealthCmd c website endpoint i) = Some i"
| "cmd_index (SleepCmd dur i) = Some i"
| "cmd_index Quit = None"
| "cmd_index (Batch cs) = None"

text \<open>The runtime hands the messages to \<open>Update\<close> one at a time; \<open>Updates\<close> collects the
  commands that a sequence of messages makes \<open>Update\<close> return.\<close>

fun Updates :: "golib \<Rightarrow> model \<Rightarrow> msg list \<Rightarrow> (model \<times> cmd list) option" where
  "Updates lib m [] = Some (m, [])"
| "Updates lib m (ev # evs) =
     do {
       (m', c, cancelled) \<leftarrow> Update lib m ev;
       (m'', cs) \<leftarrow> Updates lib m' evs;
       Some (m'', (case c of None \<Rightarrow> [] | Some x \<Rightarrow> [x]) @ cs)
     }"

text \<open>A model, a message and a command of the revision for one website, read as those
  of a list of one website, at index 0.\<close>

definition as_model :: "model_single \<Rightarrow> model" where
  "as_model m =
     \<lparr> websites = [s_website m],
       schedule = s_schedule m,
       healthEndpoint = [s_healthEndpoint m],
       lastPing = [s_lastPing m],
       lastError = [s_lastError m],
       lastHealthGeneric = [s_lastHealthGeneric m],
       timezone = s_timezone m,
       quit = s_quit m,
       ctx = s_ctx m,
       cancel = s_cancel m \<rparr>"

fun as_msg :: "msg_single \<Rightarrow> msg" where
  "as_msg (tickMsg t) = tickMsgWithIndex t 0"
| "as_msg (pingResult res err) = pingResultWithIndex res err 0"
| "as_msg (healthResultGeneric data err) = healthResultGenericWithIndex data err 0"
| "as_msg (KeyMsg_single k) = KeyMsg k"
| "as_msg OtherMsg_single = OtherMsg"

fun as_cmd :: "cmd_single \<Rightarrow> cmd" where
  "as_cmd (PingCmd_single c w) = PingCmd c w 0"
| "as_cmd (HealthCmd_single c w e) = HealthCmd c w e 0"
| "as_cmd (SleepCmd_single d) = SleepCmd d 0"
| "as_cmd Quit_single = Quit"

text \<open>
  The ways in which a configuration is invalid. The targets are malformed when
  \<open>PING_WEBSITE\<close> is no JSON array of strings, or an empty one, or has an entry that
  \<open>isValidHostname\<close> rejects; an empty-string entry is one, since \<open>net.ParseIP\<close> does
  not read the empty string. The interval is unparsable when \<open>PING_SCHEDULE\<close> is set and
  \<open>time.ParseDuration\<close> rejects it (unset, it is \<open>DefaultSchedule\<close>). The timezone is
  unknown when \<open>TIMEZONE\<close> is set and \<open>time.LoadLocation\<close> rejects it. The health list
  is mismatched when \<open>HEALTH_ENDPOINT\<close> is a JSON array of strings whose length is not
  that of the targets.
\<close>

definition malformed_targets :: "golib \<Rightarrow> environ \<Rightarrow> bool" where
  "malformed_targets lib env =
     (case json_Unmarshal_strings lib (PING_WEBSITE env) of
        Inl err \<Rightarrow> True
      | Inr ws \<Rightarrow> ws = [] \<or> list_ex (\<lambda>w. \<not> isValidHostname lib w) ws)"

definition unparsable_interval :: "golib \<Rightarrow> environ \<Rightarrow> bool" where
  "unparsable_interval lib env \<longleftrightarrow>
     PING_SCHEDULE env \<noteq> [] \<and> \<not> isValidSchedule lib (PING_SCHEDULE env)"

definition unknown_timezone :: "golib \<Rightarrow> environ \<Rightarrow> bool" where
  "unknown_timezone lib env \<longleftrightarrow>
     TIMEZONE env \<noteq> [] \<and> isl (time_LoadLocation lib (TIMEZONE env))"

definition mismatched_health_list :: "golib \<Rightarrow> environ \<Rightarrow> bool" where
  "mismatched_health_list lib env =
     (HEALTH_ENDPOINT env \<noteq> [] \<and>
      (case json_Unmarshal_strings lib (HEALTH_ENDPOINT env) of
         Inl err \<Rightarrow> False
       | Inr hs \<Rightarrow>
          (case json_Unmarshal_strings lib (PING_WEBSITE env) of
             Inl err \<Rightarrow> True
           | Inr ws \<Rightarrow> length hs \<noteq> length ws)))"

definition exits_with_message :: "startup \<Rightarrow> bool" where
  "exits_with_message r = (case r of Exit text code \<Rightarrow> text \<noteq> [] \<and> code \<noteq> 0 | Run ws s hs loc \<Rightarrow> False)"

definition empty_target :: "golib \<Rightarrow> environ \<Rightarrow> bool" where
  "empty_target lib env =
     (case json_Unmarshal_strings lib (PING_WEBSITE env) of
        Inl err \<Rightarrow> False
      | Inr ws \<Rightarrow> [] \<in> set ws \<and> \<not> net_ParseIP lib [])"

text \<open>
  What \<open>View\<close> reads beside the model: in the round for website \<open>i\<close> it reads the clock
  when the ping text of \<open>i\<close> is not empty, and it walks over the health map of \<open>i\<close> (in
  the runtime's order) when \<open>i\<close> has a health path and health data.
\<close>

definition reads_clock :: "model \<Rightarrow> nat \<Rightarrow> bool" where
  "reads_clock m i \<longleftrightarrow> i < length (lastPing m) \<and> lastPing m ! i \<noteq> []"

definition walks_health_map :: "model \<Rightarrow> nat \<Rightarrow> bool" where
  "walks_health_map m i \<longleftrightarrow>
     i < length (healthEndpoint m) \<and> healthEndpoint m ! i \<noteq> [] \<and>
     i < length (lastHealthGeneric m) \<and> lastHealthGeneric m ! i \<noteq> None"

section \<open>Concrete data for the examples\<close>

text \<open>
  A library that answers on the few strings the examples use, as Go's does there:
  \<open>time.ParseDuration\<close> reads \<open>10s\<close> and \<open>5s\<close>; \<open>json.Unmarshal\<close> decodes the JSON
  value \<open>null\<close> into a map as the nil map and into a slice of strings as the nil slice
  (of length 0), and reports no error for either. A time is printed as
  its whole seconds and the name of its location, and the renderer adds nothing to its
  text.
\<close>

definition dq :: string where
  "dq = [CHR 0x22]"

definition example_lib :: golib where
  "example_lib =
     \<lparr> time_ParseDuration =
         (\<lambda>s. if s = ''10s'' then Inr (10 * Second)
               else if s = ''5s'' then Inr (5 * Second)
               else Inl (''time: invalid duration '' @ dq @ s @ dq)),
       time_LoadLocation =
         (\<lambda>s. if s = ''UTC'' then Inr (Location ''UTC'')
               else Inl (''unknown time zone '' @ s)),
       net_ParseIP = (\<lambda>s. s = ''127.0.0.1''),
       net_JoinHostPort = (\<lambda>host port. host @ '':'' @ port),
       json_Unmarshal_strings =
         (\<lambda>s. if s = ''null'' then Inr []
               else if s = ''['' @ dq @ ''example.com'' @ dq @ '']'' then Inr [''example.com'']
               else if s = ''['' @ dq @ ''example.com'' @ dq @ '','' @ dq @ dq @ '']''
                 then Inr [''example.com'', []]
               else if s = ''['' @ dq @ ''example.com'' @ dq @ '','' @
                               dq @ ''example.org'' @ dq @ '']''
                 then Inr [''example.com'', ''example.org'']
               else if s = ''['' @ dq @ ''/health'' @ dq @ '','' @ dq @ ''/status'' @ dq @ '']''
                 then Inr [''/health'', ''/status'']
               else Inl ''invalid character''),
       json_Unmarshal_map =
         (\<lambda>s. if s = ''null'' then Inr None
               else if s = ''{}'' then Inr (Some Map.empty)
               else if s = ''{'' @ dq @ ''status'' @ dq @ '':'' @ dq @ ''ok'' @ dq @ ''}''
                 then Inr (Some [''status'' \<mapsto> AnyString ''ok''])
               else Inl ''invalid character''),
       http_NewRequest = (\<lambda>url. Inr url),
       strconv_Quote = (\<lambda>s. dq @ s @ dq),
       fmt_Sprint_v = (\<lambda>v. case v of AnyString s \<Rightarrow> s | _ \<Rightarrow> ''?''),
       time_Parse_RFC3339 = (\<lambda>s. Inl ''parsing time''),
       time_Format =
         (\<lambda>t layout. case t of Time n (Location l) \<Rightarrow> itoa (n div Second) @ '' '' @ l),
       Render = (\<lambda>st s. s) \<rparr>"

definition example_model :: model where
  "example_model =
     \<lparr> websites = [''example.com'', ''example.org''],
       schedule = ''5s'',
       healthEndpoint = [''/health'', []],
       lastPing = [''Ping to example.com'', []],
       lastError = [[], ''dial tcp: timeout''],
       lastHealthGeneric = [Some [''status'' \<mapsto> AnyString ''ok''], None],
       timezone = None,
       quit = False,
       ctx = Ctx 0,
       cancel = True \<rparr>"

text \<open>A server that answers every request with the given status and body.\<close>

definition example_world :: "int \<Rightarrow> string \<Rightarrow> world" where
  "example_world code body =
     \<lparr> dial = (\<lambda>timeout address. Inr 12),
       http_Do = (\<lambda>req. Inr \<lparr> StatusCode = code, Body = Inr body \<rparr>),
       time_Now = Time 0 Local \<rparr>"

definition example_env :: environ where
  "example_env =
     \<lparr> PING_WEBSITE = ''['' @ dq @ ''example.com'' @ dq @ '']'',
       PING_SCHEDULE = ''5s'',
       TIMEZONE = ''UTC'',
       HEALTH_ENDPOINT = ''/health'' \<rparr>"


section \<open>Slices: basic facts\<close>

lemma in_range_nat: "in_range i xs \<Longrightarrow> nat i < length xs"
  by (simp add: in_range_def nat_less_iff)

lemma at_Some: "in_range i xs \<Longrightarrow> at xs i = Some (xs ! nat i)"
  by (simp add: at_def)

lemma assign_Some: "in_range i xs \<Longrightarrow> assign xs i v = Some (xs[nat i := v])"
  by (simp add: assign_def)

lemma in_range_update [simp]: "in_range i (xs[k := v]) = in_range i xs"
  by (simp add: in_range_def)

lemma at_update_same: "in_range i xs \<Longrightarrow> at (xs[nat i := v]) i = Some v"
  by (simp add: at_def in_range_nat)

lemma wf_ranges:
  assumes "wf_model m" "in_range i (websites m)"
  shows "in_range i (lastPing m)" "in_range i (lastError m)" "in_range i (lastHealthGeneric m)"
  using assms by (simp_all add: wf_model_def in_range_def)

lemma example_model_wf: "wf_model example_model"
  by (simp add: wf_model_def example_model_def)

lemma example_model_range0: "in_range 0 (websites example_model)"
  by (simp add: in_range_def example_model_def)

lemma example_model_range1: "in_range 1 (websites example_model)"
  by (simp add: in_range_def example_model_def)

section \<open>Update, case by case\<close>

lemma schedulePing_index: "cmd_index (schedulePing lib s i) = Some i"
  by (simp add: schedulePing_def)

lemma Update_tick:
  assumes "in_range i (websites m)"
  shows "Update lib m (tickMsgWithIndex t i) =
           Some (m, Some (PingCmd (ctx m) (websites m ! nat i) i), False)"
  using assms by (simp add: at_Some pingWebsiteCmdWithContext_def)

lemma Update_ping_failure:
  assumes "wf_model m" and "in_range i (websites m)"
  shows "Update lib m (pingResultWithIndex res (Some e) i) =
           Some (m\<lparr>lastError := (lastError m)[nat i := e],
                   lastPing := (lastPing m)[nat i := []],
                   lastHealthGeneric := (lastHealthGeneric m)[nat i := None]\<rparr>,
                 Some (schedulePing lib (schedule m) i), False)"
  using wf_ranges[OF assms] by (simp add: assign_Some)

lemma Update_ping_success_health:
  assumes "wf_model m" and "in_range i (websites m)" and "health_configured m i"
  shows "Update lib m (pingResultWithIndex res None i) =
           Some (m\<lparr>lastPing := (lastPing m)[nat i := res],
                   lastError := (lastError m)[nat i := []]\<rparr>,
                 Some (HealthCmd (ctx m) (websites m ! nat i) (healthEndpoint m ! nat i) i),
                 False)"
  using wf_ranges[OF assms(1,2)] assms(2,3)
  by (simp add: assign_Some at_Some health_configured_def fetchHealthCmdWithContext_def)

lemma Update_ping_success_no_health:
  assumes "wf_model m" and "in_range i (websites m)" and "\<not> health_configured m i"
  shows "Update lib m (pingResultWithIndex res None i) =
           Some (m\<lparr>lastPing := (lastPing m)[nat i := res],
                   lastError := (lastError m)[nat i := []]\<rparr>,
                 Some (schedulePing lib (schedule m) i), False)"
  using wf_ranges[OF assms(1,2)] assms(2,3)
  by (auto simp add: assign_Some at_Some health_configured_def)

lemma Update_health_success:
  assumes "wf_model m" and "in_range i (websites m)"
  shows "Update lib m (healthResultGenericWithIndex data None i) =
           Some (m\<lparr>lastHealthGeneric := (lastHealthGeneric m)[nat i := data]\<rparr>,
                 Some (schedulePing lib (schedule m) i), False)"
  using wf_ranges[OF assms] by (simp add: assign_Some)

lemma Update_health_failure:
  assumes "wf_model m" and "in_range i (websites m)"
  shows "Update lib m (healthResultGenericWithIndex data (Some e) i) =
           Some (m\<lparr>lastHealthGeneric := (lastHealthGeneric m)[nat i := None],
                   lastError := (lastError m)[nat i := e]\<rparr>,
                 Some (schedulePing lib (schedule m) i), False)"
  using wf_ranges[OF assms] by (simp add: assign_Some)

text \<open>\<open>Update\<close> keeps a model well formed, and keeps its websites and health paths.\<close>

lemma Update_wf:
  assumes "wf_model m" and "Update lib m ev = Some (m', c, b)"
  shows "wf_model m' \<and> websites m' = websites m \<and> healthEndpoint m' = healthEndpoint m"
  using assms
  by (cases ev)
     (auto simp: wf_model_def assign_def Let_def
        split: option.splits if_splits Option.bind_splits)

text \<open>The message that a command gives when run is for the target of the command.\<close>

lemma run_index:
  assumes "run lib w c = Some (ev, calls)"
  shows "msg_index ev = cmd_index c"
  using assms
  by (cases c)
     (auto simp: pingWebsiteCmdWithContext_run_def fetchHealthCmdWithContext_run_def
        schedulePing_run_def Let_def split: sum.splits if_splits)

section \<open>A reachability failure clears the health outcome\<close>

text \<open>
  C1. For every target index \<open>i\<close> of a well-formed model, \<open>Update\<close> on a ping result with
  an error returns a model whose health outcome for \<open>i\<close> is nil, whose last error for \<open>i\<close>
  is the error's text and whose ping text for \<open>i\<close> is empty (and it schedules the next
  tick).
\<close>

theorem ping_failure_clears_health:
  assumes "wf_model m" and "in_range i (websites m)"
  shows "\<exists>m'. Update lib m (pingResultWithIndex res (Some e) i) =
             Some (m', Some (schedulePing lib (schedule m) i), False) \<and>
           at (lastHealthGeneric m') i = Some None \<and>
           at (lastError m') i = Some e \<and>
           at (lastPing m') i = Some []"
  using wf_ranges[OF assms]
  by (simp add: assign_Some at_update_same)

theorem ping_failure_clears_health_witness:
  "wf_model example_model \<and> in_range 0 (websites example_model) \<and>
   (\<exists>m'. Update example_lib example_model (pingResultWithIndex [] (Some ''refused'') 0) =
            Some (m', Some (schedulePing example_lib (schedule example_model) 0), False) \<and>
          at (lastHealthGeneric m') 0 = Some None \<and>
          at (lastError m') 0 = Some ''refused'' \<and>
          at (lastPing m') 0 = Some [])"
  using ping_failure_clears_health[OF example_model_wf example_model_range0]
    example_model_wf example_model_range0
  by blast

section \<open>One scheduled operation per event\<close>

text \<open>
  C2. For every per-target message (tick, ping result, health result) whose index is a
  target index of a well-formed model, \<open>Update\<close> does not panic and returns exactly one
  command, which is a single probe or timer command (not nil, not a batch) for that same
  target.
\<close>

theorem one_operation_per_event:
  assumes "wf_model m" and "msg_index ev = Some i" and "in_range i (websites m)"
  shows "\<exists>m' c. Update lib m ev = Some (m', Some c, False) \<and> cmd_index c = Some i"
proof (cases ev)
  case (tickMsgWithIndex t j)
  then show ?thesis using assms by (simp add: Update_tick del: Update.simps)
next
  case (pingResultWithIndex res err j)
  with assms have j: "j = i" by simp
  show ?thesis
  proof (cases err)
    case None
    show ?thesis
    proof (cases "health_configured m i")
      case True
      then show ?thesis using assms pingResultWithIndex None j
        by (simp add: Update_ping_success_health del: Update.simps)
    next
      case False
      then show ?thesis using assms pingResultWithIndex None j
        by (simp add: Update_ping_success_no_health schedulePing_index del: Update.simps)
    qed
  next
    case (Some e)
    then show ?thesis using assms pingResultWithIndex j
      by (simp add: Update_ping_failure schedulePing_index del: Update.simps)
  qed
next
  case (healthResultGenericWithIndex data err j)
  with assms have j: "j = i" by simp
  show ?thesis
  proof (cases err)
    case None
    then show ?thesis using assms healthResultGenericWithIndex j
      by (simp add: Update_health_success schedulePing_index del: Update.simps)
  next
    case (Some e)
    then show ?thesis using assms healthResultGenericWithIndex j
      by (simp add: Update_health_failure schedulePing_index del: Update.simps)
  qed
next
  case (KeyMsg k)
  then show ?thesis using assms by simp
next
  case OtherMsg
  then show ?thesis using assms by simp
qed

theorem one_operation_per_event_witness:
  "wf_model example_model \<and>
   msg_index (tickMsgWithIndex (Time 0 Local) 1) = Some 1 \<and>
   in_range 1 (websites example_model) \<and>
   (\<exists>m' c. Update example_lib example_model (tickMsgWithIndex (Time 0 Local) 1) =
              Some (m', Some c, False) \<and> cmd_index c = Some 1)"
proof -
  have i: "msg_index (tickMsgWithIndex (Time 0 Local) 1) = Some 1" by simp
  from one_operation_per_event[OF example_model_wf i example_model_range1]
    example_model_wf i example_model_range1
  show ?thesis by blast
qed

section \<open>The order of one cycle\<close>

lemma Init_commands:
  "Init m = Batch (map (\<lambda>k. PingCmd (ctx m) (websites m ! k) (int k)) [0..<length (websites m)])"
  unfolding Init_def pingWebsiteCmdWithContext_def
  by (simp, rule nth_equalityI) (simp_all add: nth_enumerate_eq)

lemma schedulePing_delay:
  "schedulePing lib sched i =
     SleepCmd (case time_ParseDuration lib sched of
                 Inl err \<Rightarrow> DefaultSleepBackoff
               | Inr d \<Rightarrow> d) i"
  by (simp add: schedulePing_def)

lemma run_PingCmd:
  "\<exists>res err calls. run lib w (PingCmd c website i) = Some (pingResultWithIndex res err i, calls)"
  by (simp add: pingWebsiteCmdWithContext_run_def Let_def split: sum.splits)

lemma run_HealthCmd:
  "\<exists>data err calls.
     run lib w (HealthCmd c website endpoint i) =
       Some (healthResultGenericWithIndex data err i, calls)"
  by (simp add: fetchHealthCmdWithContext_run_def Let_def split: sum.splits)

lemma run_SleepCmd:
  "run lib w (SleepCmd dur i) = Some (tickMsgWithIndex (time_Now w) i, [])"
  by (simp add: schedulePing_run_def)

lemma example_delay:
  "time_ParseDuration example_lib (schedule example_model) = Inr (5 * Second)"
  by (simp add: example_lib_def example_model_def)

lemma example_delay_not_default: "5 * Second \<noteq> DefaultSleepBackoff"
  by (simp add: DefaultSleepBackoff_def Second_def)

text \<open>
  C3. For a target index \<open>i\<close> of a well-formed model: \<open>Init\<close> issues a reachability
  check for \<open>i\<close>, and so does a tick, and that check, when run, gives a ping result for
  \<open>i\<close>; a failed reachability check is followed by the timer (no health check); a
  successful one is followed by the health check when a health path is configured for
  \<open>i\<close>, which when run gives a health result for \<open>i\<close>, and by the timer when none is; a
  health result, with or without an error, is followed by the timer. The timer sleeps
  the duration that \<open>time.ParseDuration\<close> reads from the model's schedule (or
  \<open>DefaultSleepBackoff\<close>, should it read none) and then gives a tick for \<open>i\<close>.
\<close>

theorem cycle_order:
  assumes "wf_model m" and "in_range i (websites m)"
  shows "(\<exists>cs. Init m = Batch cs \<and> at cs i = Some (PingCmd (ctx m) (websites m ! nat i) i)) \<and>
         Update lib m (tickMsgWithIndex t i) =
           Some (m, Some (PingCmd (ctx m) (websites m ! nat i) i), False) \<and>
         (\<exists>r e' calls. run lib w (PingCmd (ctx m) (websites m ! nat i) i) =
                          Some (pingResultWithIndex r e' i, calls)) \<and>
         (\<exists>m'. Update lib m (pingResultWithIndex res (Some e) i) =
                  Some (m', Some (SleepCmd (case time_ParseDuration lib (schedule m) of
                                              Inl err \<Rightarrow> DefaultSleepBackoff
                                            | Inr d \<Rightarrow> d) i), False)) \<and>
         (health_configured m i \<longrightarrow>
            (\<exists>m'. Update lib m (pingResultWithIndex res None i) =
                     Some (m', Some (HealthCmd (ctx m) (websites m ! nat i)
                                       (healthEndpoint m ! nat i) i), False)) \<and>
            (\<exists>d e' calls. run lib w (HealthCmd (ctx m) (websites m ! nat i)
                                       (healthEndpoint m ! nat i) i) =
                             Some (healthResultGenericWithIndex d e' i, calls))) \<and>
         (\<not> health_configured m i \<longrightarrow>
            (\<exists>m'. Update lib m (pingResultWithIndex res None i) =
                     Some (m', Some (SleepCmd (case time_ParseDuration lib (schedule m) of
                                                 Inl err \<Rightarrow> DefaultSleepBackoff
                                               | Inr d \<Rightarrow> d) i), False))) \<and>
         (\<exists>m'. Update lib m (healthResultGenericWithIndex data err i) =
                  Some (m', Some (SleepCmd (case time_ParseDuration lib (schedule m) of
                                              Inl err \<Rightarrow> DefaultSleepBackoff
                                            | Inr d \<Rightarrow> d) i), False)) \<and>
         (\<forall>dur. run lib w (SleepCmd dur i) = Some (tickMsgWithIndex (time_Now w) i, []))"
proof -
  have init: "\<exists>cs. Init m = Batch cs \<and> at cs i = Some (PingCmd (ctx m) (websites m ! nat i) i)"
    using assms(2) by (simp add: Init_commands at_def in_range_def nat_less_iff)
  have health: "\<exists>m'. Update lib m (healthResultGenericWithIndex data err i) =
                  Some (m', Some (schedulePing lib (schedule m) i), False)"
    using assms
    by (cases err)
       (simp_all add: Update_health_success Update_health_failure del: Update.simps)
  show ?thesis
    using init health[unfolded schedulePing_delay] assms run_PingCmd run_HealthCmd
    by (simp add: Update_tick Update_ping_failure Update_ping_success_health
          Update_ping_success_no_health schedulePing_delay run_SleepCmd
          del: Update.simps run.simps)
qed

theorem cycle_order_witness:
  "wf_model example_model \<and> in_range 0 (websites example_model) \<and>
   in_range 1 (websites example_model) \<and>
   health_configured example_model 0 \<and> \<not> health_configured example_model 1 \<and>
   5 * Second \<noteq> DefaultSleepBackoff \<and>
   (\<exists>m'. Update example_lib example_model (pingResultWithIndex ''up'' None 0) =
            Some (m', Some (HealthCmd (ctx example_model) (websites example_model ! nat 0)
                              (healthEndpoint example_model ! nat 0) 0), False)) \<and>
   (\<exists>m'. Update example_lib example_model (pingResultWithIndex ''up'' None 1) =
            Some (m', Some (SleepCmd (5 * Second) 1), False)) \<and>
   (\<exists>m'. Update example_lib example_model (pingResultWithIndex [] (Some ''refused'') 0) =
            Some (m', Some (SleepCmd (5 * Second) 0), False)) \<and>
   (\<exists>m'. Update example_lib example_model
            (healthResultGenericWithIndex None (Some ''HTTP 500'') 0) =
            Some (m', Some (SleepCmd (5 * Second) 0), False))"
proof -
  have c0: "health_configured example_model 0"
    by (simp add: health_configured_def example_model_def)
  have c1: "\<not> health_configured example_model 1"
    by (simp add: health_configured_def example_model_def)
  have p: "(case time_ParseDuration example_lib (schedule example_model) of
              Inl err \<Rightarrow> DefaultSleepBackoff | Inr d \<Rightarrow> d) = 5 * Second"
    by (simp only: example_delay sum.case)
  note t0 = cycle_order[OF example_model_wf example_model_range0,
              where lib = example_lib, unfolded p]
  note t1 = cycle_order[OF example_model_wf example_model_range1,
              where lib = example_lib, unfolded p]
  from t0 c0
  have h0: "\<exists>m'. Update example_lib example_model (pingResultWithIndex ''up'' None 0) =
            Some (m', Some (HealthCmd (ctx example_model) (websites example_model ! nat 0)
                              (healthEndpoint example_model ! nat 0) 0), False)"
    by blast
  from t1 c1
  have h1: "\<exists>m'. Update example_lib example_model (pingResultWithIndex ''up'' None 1) =
            Some (m', Some (SleepCmd (5 * Second) 1), False)"
    by blast
  from t0
  have f0: "\<exists>m'. Update example_lib example_model (pingResultWithIndex [] (Some ''refused'') 0) =
            Some (m', Some (SleepCmd (5 * Second) 0), False)"
    by blast
  from t0
  have g0: "\<exists>m'. Update example_lib example_model
            (healthResultGenericWithIndex None (Some ''HTTP 500'') 0) =
            Some (m', Some (SleepCmd (5 * Second) 0), False)"
    by blast
  from example_model_wf example_model_range0 example_model_range1 c0 c1
    example_delay_not_default h0 h1 f0 g0
  show ?thesis by blast
qed

section \<open>A health failure keeps the reachability success\<close>

text \<open>
  C4. For a target index \<open>i\<close> of a well-formed model, \<open>Update\<close> on a health result with
  an error leaves the whole of \<open>lastPing\<close> as it was, stores the error's text as the last
  error of \<open>i\<close> and clears the health data of \<open>i\<close>.
\<close>

theorem health_failure_keeps_ping:
  assumes "wf_model m" and "in_range i (websites m)"
  shows "\<exists>m'. Update lib m (healthResultGenericWithIndex data (Some e) i) =
             Some (m', Some (schedulePing lib (schedule m) i), False) \<and>
           lastPing m' = lastPing m \<and>
           at (lastError m') i = Some e \<and>
           at (lastHealthGeneric m') i = Some None"
  using wf_ranges[OF assms]
  by (simp add: assign_Some at_update_same)

theorem health_failure_keeps_ping_witness:
  "wf_model example_model \<and> in_range 0 (websites example_model) \<and>
   (\<exists>m'. Update example_lib example_model
            (healthResultGenericWithIndex None (Some ''HTTP 500'') 0) =
            Some (m', Some (schedulePing example_lib (schedule example_model) 0), False) \<and>
          lastPing m' = lastPing example_model \<and>
          at (lastError m') 0 = Some ''HTTP 500'' \<and>
          at (lastHealthGeneric m') 0 = Some None)"
  using health_failure_keeps_ping[OF example_model_wf example_model_range0]
    example_model_wf example_model_range0
  by blast

section \<open>The delay of every tick\<close>

lemma Update_schedule:
  assumes "Update lib m ev = Some (m', c, b)"
  shows "schedule m' = schedule m"
  using assms
  by (cases ev) (auto simp: Let_def split: option.splits if_splits Option.bind_splits)

lemma Update_sleep:
  assumes "Update lib m ev = Some (m', Some (SleepCmd d j), b)"
  shows "SleepCmd d j = schedulePing lib (schedule m) j"
  using assms
  by (cases ev)
     (auto simp: Let_def schedulePing_def pingWebsiteCmdWithContext_def
        fetchHealthCmdWithContext_def split: option.splits if_splits Option.bind_splits)

lemma Updates_sleep:
  assumes "Updates lib m evs = Some (m', cs)" and "SleepCmd d j \<in> set cs"
  shows "SleepCmd d j = schedulePing lib (schedule m) j"
  using assms
proof (induction evs arbitrary: m cs)
  case Nil
  then show ?case by simp
next
  case (Cons ev evs)
  from Cons.prems(1) obtain m1 c b cs1 where
    u: "Update lib m ev = Some (m1, c, b)" and
    us: "Updates lib m1 evs = Some (m', cs1)" and
    cs: "cs = (case c of None \<Rightarrow> [] | Some x \<Rightarrow> [x]) @ cs1"
    by (auto split: Option.bind_splits)
  from Cons.prems(2) cs consider "c = Some (SleepCmd d j)" | "SleepCmd d j \<in> set cs1"
    by (auto split: option.splits)
  then show ?case
  proof cases
    case 1
    with u show ?thesis by (auto dest: Update_sleep)
  next
    case 2
    from Cons.IH[OF us 2] Update_schedule[OF u] show ?thesis by simp
  qed
qed

text \<open>
  C7. When \<open>time.ParseDuration\<close> accepts the model's schedule (\<open>isValidSchedule\<close>), it
  returns a duration \<open>d\<close> (the branch of \<open>schedulePing\<close> that substitutes the default is
  not taken), \<open>schedulePing\<close> on that schedule sleeps exactly \<open>d\<close>, and every timer
  command that \<open>Update\<close> returns along any sequence of messages sleeps exactly \<open>d\<close>.
\<close>

theorem configured_delay:
  assumes "isValidSchedule lib (schedule m)"
  shows "\<exists>d. time_ParseDuration lib (schedule m) = Inr d \<and>
             (\<forall>idx. schedulePing lib (schedule m) idx = SleepCmd d idx) \<and>
             (\<forall>evs m' cs d' j. Updates lib m evs = Some (m', cs) \<longrightarrow>
                 SleepCmd d' j \<in> set cs \<longrightarrow> d' = d)"
proof -
  from assms obtain d where d: "time_ParseDuration lib (schedule m) = Inr d"
    by (auto simp: isValidSchedule_def split: sum.splits)
  then have s: "schedulePing lib (schedule m) idx = SleepCmd d idx" for idx
    by (simp add: schedulePing_def)
  have "d' = d" if "Updates lib m evs = Some (m', cs)" "SleepCmd d' j \<in> set cs"
    for evs m' cs d' j
    using Updates_sleep[OF that] s by simp
  with d s show ?thesis by blast
qed

theorem configured_delay_witness:
  "isValidSchedule example_lib (schedule example_model) \<and>
   time_ParseDuration example_lib (schedule example_model) = Inr (5 * Second) \<and>
   5 * Second \<noteq> DefaultSleepBackoff \<and>
   (\<forall>idx. schedulePing example_lib (schedule example_model) idx = SleepCmd (5 * Second) idx) \<and>
   \<not> (\<exists>evs m' cs d' j. Updates example_lib example_model evs = Some (m', cs) \<and>
         SleepCmd d' j \<in> set cs \<and> d' \<noteq> 5 * Second) \<and>
   (\<exists>m' cs. Updates example_lib example_model
              [pingResultWithIndex [] (Some ''refused'') 0] = Some (m', cs) \<and>
            SleepCmd (5 * Second) 0 \<in> set cs)"
proof -
  have v: "isValidSchedule example_lib (schedule example_model)"
    by (simp add: isValidSchedule_def example_delay)
  from configured_delay[OF v] obtain d where
    d: "time_ParseDuration example_lib (schedule example_model) = Inr d" and
    s: "\<forall>idx. schedulePing example_lib (schedule example_model) idx = SleepCmd d idx" and
    u: "\<forall>evs m' cs d' j. Updates example_lib example_model evs = Some (m', cs) \<longrightarrow>
          SleepCmd d' j \<in> set cs \<longrightarrow> d' = d"
    by blast
  from d example_delay have dv: "d = 5 * Second" by simp
  have r: "\<exists>m' cs. Updates example_lib example_model
              [pingResultWithIndex [] (Some ''refused'') 0] = Some (m', cs) \<and>
            SleepCmd (5 * Second) 0 \<in> set cs"
    using s[unfolded dv] example_model_wf example_model_range0
    by (simp add: Update_ping_failure del: Update.simps)
  from v example_delay example_delay_not_default s[unfolded dv] u[unfolded dv] r
  show ?thesis by blast
qed

section \<open>No health path, no request\<close>

text \<open>
  C5. With the empty health path, the body of the command that
  \<open>fetchHealthCmdWithContext\<close> returns gives the result "health endpoint not configured"
  (no data) and makes no call at all: no request is built and none is sent.
\<close>

theorem unconfigured_health_no_io:
  "fetchHealthCmdWithContext_run lib w website [] idx =
     (healthResultGenericWithIndex None (Some ''health endpoint not configured'') idx, []) \<and>
   run lib w (fetchHealthCmdWithContext c website [] idx) =
     Some (healthResultGenericWithIndex None (Some ''health endpoint not configured'') idx, [])"
  by (simp add: fetchHealthCmdWithContext_run_def fetchHealthCmdWithContext_def)

section \<open>The outcomes of a health check\<close>

text \<open>
  C8, as the code has it. For a health check whose request was built and answered and
  whose body was read: a status code outside 200-299 gives the error
  "health endpoint HTTP <code>: <body>"; with a status code in 200-299, what
  \<open>json.Unmarshal\<close> decodes from the body without an error is returned as it is, with no
  error, and an error of \<open>json.Unmarshal\<close> gives the error
  "invalid JSON from health endpoint: <error>", a line break, "Body: <body>".
\<close>

theorem health_response_outcomes:
  assumes "endpoint \<noteq> []"
    and "http_NewRequest lib (HTTPSScheme @ website @ endpoint) = Inr req"
    and "http_Do w req = Inr resp"
    and "Body resp = Inr body"
  shows "(StatusCode resp < 200 \<or> StatusCode resp \<ge> 300 \<longrightarrow>
            fst (fetchHealthCmdWithContext_run lib w website endpoint idx) =
              healthResultGenericWithIndex None
                (Some (''health endpoint HTTP '' @ itoa (StatusCode resp) @ '': '' @ body)) idx) \<and>
         (200 \<le> StatusCode resp \<and> StatusCode resp < 300 \<longrightarrow>
            (\<forall>data. json_Unmarshal_map lib body = Inr data \<longrightarrow>
               fst (fetchHealthCmdWithContext_run lib w website endpoint idx) =
                 healthResultGenericWithIndex data None idx) \<and>
            (\<forall>err. json_Unmarshal_map lib body = Inl err \<longrightarrow>
               fst (fetchHealthCmdWithContext_run lib w website endpoint idx) =
                 healthResultGenericWithIndex None
                   (Some (''invalid JSON from health endpoint: '' @ err @ [newline] @
                          ''Body: '' @ body)) idx))"
  using assms by (auto simp: fetchHealthCmdWithContext_run_def Let_def)

lemma example_request:
  "http_NewRequest example_lib (HTTPSScheme @ ''example.com'' @ ''/health'') =
     Inr ''https://example.com/health''"
  by (simp add: example_lib_def HTTPSScheme_def)

lemma example_answer:
  "http_Do (example_world code body) req = Inr \<lparr>StatusCode = code, Body = Inr body\<rparr>"
  by (simp add: example_world_def)

theorem health_response_outcomes_witness:
  "fst (fetchHealthCmdWithContext_run example_lib (example_world 500 ''down'')
          ''example.com'' ''/health'' 0) =
     healthResultGenericWithIndex None (Some ''health endpoint HTTP 500: down'') 0 \<and>
   fst (fetchHealthCmdWithContext_run example_lib (example_world 200 ''{}'')
          ''example.com'' ''/health'' 0) =
     healthResultGenericWithIndex (Some Map.empty) None 0 \<and>
   fst (fetchHealthCmdWithContext_run example_lib (example_world 200 ''oops'')
          ''example.com'' ''/health'' 0) =
     healthResultGenericWithIndex None
       (Some (''invalid JSON from health endpoint: invalid character'' @ [newline] @
              ''Body: oops'')) 0"
proof -
  have ne: "''/health'' \<noteq> []" by simp
  have b: "Body \<lparr>StatusCode = code, Body = Inr body\<rparr> = Inr body" for code body by simp
  have "itoa 500 = ''500''" by (simp add: itoa_def)
  moreover have "json_Unmarshal_map example_lib ''{}'' = Inr (Some Map.empty)"
    by (simp add: example_lib_def)
  moreover have "json_Unmarshal_map example_lib ''oops'' = Inl ''invalid character''"
    by (simp add: example_lib_def)
  ultimately show ?thesis
    using
      health_response_outcomes[OF ne example_request
        example_answer[of 500 "''down''"] b[of 500 "''down''"], of 0]
      health_response_outcomes[OF ne example_request
        example_answer[of 200 "''{}''"] b[of 200 "''{}''"], of 0]
      health_response_outcomes[OF ne example_request
        example_answer[of 200 "''oops''"] b[of 200 "''oops''"], of 0]
    by simp
qed

text \<open>
  C8, as the claim has it, fails on the third part: the body \<open>null\<close> is no JSON object,
  and \<open>json.Unmarshal\<close> decodes it into a map as the nil map without an error, so a
  response with status 200 and body \<open>null\<close> is no failure: the result has no data and
  no error.
\<close>

theorem null_body_is_no_failure:
  "fetchHealthCmdWithContext_run example_lib (example_world 200 ''null'')
     ''example.com'' ''/health'' 0 =
     (healthResultGenericWithIndex None None 0,
      [NewRequest ''https://example.com/health'', Do ''https://example.com/health''])"
  by (simp add: fetchHealthCmdWithContext_run_def example_lib_def example_world_def
        HTTPSScheme_def Let_def)

section \<open>Invalid configuration\<close>

lemma find_invalid:
  "list_ex P ws \<Longrightarrow> \<exists>w. find P ws = Some w"
  by (induction ws) auto

text \<open>What \<open>main\<close> starts the program with has passed the checks.\<close>

lemma main_Run:
  assumes "main lib env = Run ws sched hs loc"
  shows "ws \<noteq> [] \<and> list_all (isValidHostname lib) ws \<and> isValidSchedule lib sched \<and>
         length hs = length ws"
proof -
  have f: "list_all P xs" if "find (\<lambda>x. \<not> P x) xs = None" for P :: "string \<Rightarrow> bool" and xs
    using that by (simp add: find_None_iff list_all_iff)
  from assms show ?thesis
    by (auto simp: main_def Let_def f split: sum.splits if_splits option.splits)
qed

lemma empty_target_malformed:
  assumes "empty_target lib env"
  shows "malformed_targets lib env"
proof -
  have "\<not> isValidHostname lib []" if "\<not> net_ParseIP lib []"
    using that by (simp add: isValidHostname_def hostname_re_def)
  with assms show ?thesis
    by (auto simp: empty_target_def malformed_targets_def list_ex_iff split: sum.splits)
qed

text \<open>
  C6. When the targets are malformed (an empty-string entry included), the interval is
  unparsable, the timezone is unknown or the health list is mismatched, \<open>main\<close> prints a
  message and exits with a non-zero status: it does not reach the start of the program,
  with a default or otherwise.
\<close>

theorem invalid_configuration_exits:
  assumes "malformed_targets lib env \<or> empty_target lib env \<or> unparsable_interval lib env \<or>
           unknown_timezone lib env \<or> mismatched_health_list lib env"
  shows "exits_with_message (main lib env)"
proof (cases "json_Unmarshal_strings lib (PING_WEBSITE env)")
  case (Inl err)
  then show ?thesis by (simp add: main_def exits_with_message_def Let_def)
next
  case (Inr ws)
  show ?thesis
  proof (cases "ws = []")
    case True
    with Inr show ?thesis by (simp add: main_def exits_with_message_def Let_def)
  next
    case ne: False
    show ?thesis
    proof (cases "find (\<lambda>w. \<not> isValidHostname lib w) ws")
      case (Some w)
      with Inr ne show ?thesis by (simp add: main_def exits_with_message_def Let_def)
    next
      case None
      then have nomal: "\<not> malformed_targets lib env"
        using Inr ne find_invalid[of "\<lambda>w. \<not> isValidHostname lib w" ws]
        by (auto simp: malformed_targets_def)
      with assms empty_target_malformed[of lib env] consider "unparsable_interval lib env"
        | "\<not> unparsable_interval lib env" "unknown_timezone lib env"
        | "\<not> unparsable_interval lib env" "\<not> unknown_timezone lib env" "mismatched_health_list lib env"
        by blast
      then show ?thesis
      proof cases
        case 1
        with Inr ne None show ?thesis
          by (simp add: main_def exits_with_message_def Let_def unparsable_interval_def)
      next
        case 2
        with Inr ne None show ?thesis
          by (auto simp add: main_def exits_with_message_def Let_def unknown_timezone_def isl_def
                split: sum.splits)
      next
        case 3
        with Inr ne None show ?thesis
          by (auto simp add: main_def exits_with_message_def Let_def mismatched_health_list_def
                split: sum.splits)
      qed
    qed
  qed
qed


theorem invalid_configuration_exits_witness:
  "empty_target example_lib
     (example_env\<lparr>PING_WEBSITE := ''['' @ dq @ ''example.com'' @ dq @ '','' @ dq @ dq @ '']''\<rparr>) \<and>
   exits_with_message (main example_lib
     (example_env\<lparr>PING_WEBSITE := ''['' @ dq @ ''example.com'' @ dq @ '','' @ dq @ dq @ '']''\<rparr>)) \<and>
   unparsable_interval example_lib (example_env\<lparr>PING_SCHEDULE := ''soon''\<rparr>) \<and>
   exits_with_message (main example_lib (example_env\<lparr>PING_SCHEDULE := ''soon''\<rparr>)) \<and>
   unknown_timezone example_lib (example_env\<lparr>TIMEZONE := ''Mars''\<rparr>) \<and>
   exits_with_message (main example_lib (example_env\<lparr>TIMEZONE := ''Mars''\<rparr>)) \<and>
   mismatched_health_list example_lib
     (example_env\<lparr>HEALTH_ENDPOINT :=
        ''['' @ dq @ ''/health'' @ dq @ '','' @ dq @ ''/status'' @ dq @ '']''\<rparr>) \<and>
   exits_with_message (main example_lib
     (example_env\<lparr>HEALTH_ENDPOINT :=
        ''['' @ dq @ ''/health'' @ dq @ '','' @ dq @ ''/status'' @ dq @ '']''\<rparr>))"
proof -
  have a: "empty_target example_lib
     (example_env\<lparr>PING_WEBSITE := ''['' @ dq @ ''example.com'' @ dq @ '','' @ dq @ dq @ '']''\<rparr>)"
    by (simp add: empty_target_def example_lib_def example_env_def dq_def)
  have b: "unparsable_interval example_lib (example_env\<lparr>PING_SCHEDULE := ''soon''\<rparr>)"
    by (simp add: unparsable_interval_def isValidSchedule_def example_lib_def example_env_def)
  have c: "unknown_timezone example_lib (example_env\<lparr>TIMEZONE := ''Mars''\<rparr>)"
    by (simp add: unknown_timezone_def example_lib_def example_env_def)
  have d: "mismatched_health_list example_lib
     (example_env\<lparr>HEALTH_ENDPOINT :=
        ''['' @ dq @ ''/health'' @ dq @ '','' @ dq @ ''/status'' @ dq @ '']''\<rparr>)"
    by (simp add: mismatched_health_list_def example_lib_def example_env_def dq_def)
  from a b c d
    invalid_configuration_exits[of example_lib
      "example_env\<lparr>PING_WEBSITE := ''['' @ dq @ ''example.com'' @ dq @ '','' @ dq @ dq @ '']''\<rparr>"]
    invalid_configuration_exits[of example_lib "example_env\<lparr>PING_SCHEDULE := ''soon''\<rparr>"]
    invalid_configuration_exits[of example_lib "example_env\<lparr>TIMEZONE := ''Mars''\<rparr>"]
    invalid_configuration_exits[of example_lib "example_env\<lparr>HEALTH_ENDPOINT :=
        ''['' @ dq @ ''/health'' @ dq @ '','' @ dq @ ''/status'' @ dq @ '']''\<rparr>"]
  show ?thesis by blast
qed

section \<open>The health path that is no JSON array\<close>






section \<open>What the view depends on\<close>

lemma View_website_cong:
  assumes "reads_clock m i \<longrightarrow> now = now'"
    and "walks_health_map m i \<longrightarrow> order = order'"
  shows "View_website lib now order m i website = View_website lib now' order' m i website"
  using assms
  by (auto simp: View_website_def reads_clock_def walks_health_map_def at_def in_range_def
        Let_def split: option.splits Option.bind_splits)

lemma View_loop_cong:
  assumes "list_all (\<lambda>(i, website). (reads_clock m i \<longrightarrow> clock i = clock' i) \<and>
                                    (walks_health_map m i \<longrightarrow> orders i = orders' i)) ps"
  shows "View_loop lib clock orders m ps = View_loop lib clock' orders' m ps"
  using assms
proof (induction ps)
  case Nil
  show ?case by simp
next
  case (Cons p ps)
  obtain i website where p: "p = (i, website)" by (cases p)
  from Cons.prems p have
    "View_website lib (clock i) (orders i) m i website =
     View_website lib (clock' i) (orders' i) m i website"
    by (intro View_website_cong) simp_all
  moreover from Cons have "View_loop lib clock orders m ps = View_loop lib clock' orders' m ps"
    by simp
  ultimately show ?case using p by simp
qed

text \<open>
  C9, as the code has it. The text that \<open>View\<close> returns is a function of the model, of
  the clock reading in the round of each website whose ping text is not empty, and of
  the order in which the runtime walks over the health map of each website whose health
  data is shown: two calls on one model that agree on these readings return the same
  text. For a model with no ping text and no health data the text is a function of the
  model alone.
\<close>

theorem View_inputs:
  assumes "\<forall>i < length (websites m).
             (reads_clock m i \<longrightarrow> clock i = clock' i) \<and>
             (walks_health_map m i \<longrightarrow> orders i = orders' i)"
  shows "View lib clock orders m = View lib clock' orders' m"
proof -
  have "list_all (\<lambda>(i, website). (reads_clock m i \<longrightarrow> clock i = clock' i) \<and>
                                  (walks_health_map m i \<longrightarrow> orders i = orders' i))
          (enumerate 0 (websites m))"
    using assms by (auto simp: list_all_iff in_set_enumerate_eq)
  from View_loop_cong[OF this] show ?thesis
    by (simp add: View_def)
qed

theorem View_inputs_witness:
  "reads_clock example_model 0 \<and> \<not> reads_clock example_model 1 \<and>
   walks_health_map example_model 0 \<and> \<not> walks_health_map example_model 1 \<and>
   View example_lib (\<lambda>i. Time 0 Local) (\<lambda>i. [''status'']) example_model =
   View example_lib (\<lambda>i. Time (int i) Local)
     (\<lambda>i. if i = 0 then [''status''] else []) example_model"
proof -
  have r0: "reads_clock example_model 0" and r1: "\<not> reads_clock example_model 1"
    and w0: "walks_health_map example_model 0" and w1: "\<not> walks_health_map example_model 1"
    by (simp_all add: reads_clock_def walks_health_map_def example_model_def)
  have "i = 0 \<or> i = 1" if "i < length (websites example_model)" for i
    using that by (auto simp: example_model_def)
  with r1 w1 have
    "\<forall>i < length (websites example_model).
       (reads_clock example_model i \<longrightarrow> Time 0 Local = Time (int i) Local) \<and>
       (walks_health_map example_model i \<longrightarrow>
          [''status''] = (if i = 0 then [''status''] else []))"
    by auto
  from View_inputs[OF this, of example_lib] r0 r1 w0 w1 show ?thesis by blast
qed

text \<open>
  C9, as the claim has it, fails: \<open>View\<close> calls \<open>time.Now()\<close> for each website with a
  ping text and prints that time as "Last checked", so two calls on one model at two
  times return two texts.
\<close>

theorem View_reads_the_clock:
  "View example_lib (\<lambda>i. Time 0 Local) (\<lambda>i. [''status'']) example_model \<noteq>
   View example_lib (\<lambda>i. Time (60 * Second) Local) (\<lambda>i. [''status'']) example_model"
  by (simp add: View_def View_website_def example_model_def example_lib_def at_def in_range_def
        renderSection_def itoa_def Local_def Second_def)


section \<open>The two revisions of Update agree\<close>

text \<open>
  \<open>Update\<close> of the revision for one website does, on every message, what \<open>Update\<close> for a
  list of websites does on the list of that one website at index 0; so what is proved
  of the latter for a target index holds of the former.
\<close>

lemma as_cmd_schedulePing: "as_cmd (schedulePing_single lib s) = schedulePing lib s 0"
  by (simp add: schedulePing_single_def schedulePing_def DefaultSleepBackoff_def
        split: sum.splits)

lemma as_model_wf: "wf_model (as_model m)"
  by (simp add: wf_model_def as_model_def)

lemma Update_single_simulation:
  "Update lib (as_model m) (as_msg ev) =
     (case Update_single lib m ev of
        (m', c, cancelled) \<Rightarrow> Some (as_model m', map_option as_cmd c, cancelled))"
  by (cases ev)
     (auto simp: as_model_def at_def assign_def in_range_def Let_def as_cmd_schedulePing
        pingWebsiteCmdWithContext_def fetchHealthCmdWithContext_def split: option.splits)

end
